theory Spec2Isabelle
  imports Complex_Main
begin

section \<open>Python values and exceptions\<close>

text \<open>
  The configuration classes of \<^verbatim>\<open>lmfuser\<close> are Python classes whose attributes are
  argument objects of the \<^verbatim>\<open>hyperargs\<close> library. A Python exception is a value of
  \<open>error\<close>; a method that mutates \<^verbatim>\<open>self\<close> takes the object and returns the raised
  exception, if any, together with the object as the method left it (what was assigned
  before a raise stays assigned).
\<close>

datatype error =
    ValidationError string
  | AssertionError string
  | AttributeError string
  | KeyError string
  | IndexError
  | ScannerLookupError string

type_synonym 's outcome = "error option \<times> 's"

text \<open>Python's \<^verbatim>\<open>xs[:n]\<close>: a negative \<open>n\<close> counts from the end.\<close>

definition py_slice_to :: "'a list \<Rightarrow> int \<Rightarrow> 'a list" where
  "py_slice_to xs n =
     (if 0 \<le> n then take (nat n) xs else take (length xs - nat (- n)) xs)"

text \<open>Python's \<^verbatim>\<open>str(v)\<close> on a string or \<^verbatim>\<open>None\<close>.\<close>

definition py_str :: "string option \<Rightarrow> string" where
  "py_str v = (case v of None \<Rightarrow> ''None'' | Some s \<Rightarrow> s)"

section \<open>Argument objects\<close>

text \<open>
  An argument object holds its current value (\<^verbatim>\<open>None\<close> is \<open>None\<close>) and the bounds
  given at its declaration. The selectors \<open>ival\<close>, \<open>fval\<close>, \<open>sval\<close>, \<open>bval\<close>, \<open>oval\<close> are
  the method \<^verbatim>\<open>value()\<close>. A float is a \<open>real\<close>: the code only stores, compares and
  forwards these numbers.
\<close>

datatype IntArg = IntArg (ival: "int option") (imin: "int option")

datatype FloatArg =
  FloatArg (fval: "real option") (fmin: "real option") (fmax: "real option") (fallow_none: bool)

datatype StrArg = StrArg (sval: "string option")

datatype BoolArg = BoolArg (bval: "bool option")

datatype OptionArg = OptionArg (oval: "string option")

text \<open>
  The methods of \<^verbatim>\<open>hyperargs\<close> that assign a value to an argument object are not part
  of the sources. Section 4.1 of the specification gives their contract: a value outside
  the constraints (numeric bounds, the option set, none where none is not permitted) is
  rejected with a validation error and the state is left unchanged. The string given to
  each setter is the name of the field, for the error.
\<close>

text \<open>
  Modelled from the spec: assigning to an \<^verbatim>\<open>IntArg\<close>, absent from the sources. None is
  rejected, and so is a value below \<^verbatim>\<open>min_value\<close>.
\<close>

definition IntArg_set :: "string \<Rightarrow> IntArg \<Rightarrow> int option \<Rightarrow> error + IntArg" where
  "IntArg_set field a v =
     (case v of
        None \<Rightarrow> Inl (ValidationError field)
      | Some n \<Rightarrow>
          (case imin a of
             None \<Rightarrow> Inr (IntArg (Some n) (imin a))
           | Some lo \<Rightarrow>
               if n < lo then Inl (ValidationError field)
               else Inr (IntArg (Some n) (imin a))))"

text \<open>
  Modelled from the spec: assigning to a \<^verbatim>\<open>FloatArg\<close>, absent from the sources. None is
  accepted when \<^verbatim>\<open>allow_none\<close> is set; a number has to lie within the declared bounds.
\<close>

definition FloatArg_set :: "string \<Rightarrow> FloatArg \<Rightarrow> real option \<Rightarrow> error + FloatArg" where
  "FloatArg_set field a v =
     (case v of
        None \<Rightarrow>
          if fallow_none a then Inr (FloatArg None (fmin a) (fmax a) (fallow_none a))
          else Inl (ValidationError field)
      | Some x \<Rightarrow>
          if (case fmin a of None \<Rightarrow> False | Some lo \<Rightarrow> x < lo) then Inl (ValidationError field)
          else if (case fmax a of None \<Rightarrow> False | Some hi \<Rightarrow> hi < x) then Inl (ValidationError field)
          else Inr (FloatArg (Some x) (fmin a) (fmax a) (fallow_none a)))"

text \<open>
  Modelled from the spec: assigning to an \<^verbatim>\<open>OptionArg\<close>, absent from the sources. The
  value has to be one of the options, given here as a predicate on names.
\<close>

definition OptionArg_set :: "string \<Rightarrow> (string \<Rightarrow> bool) \<Rightarrow> string option \<Rightarrow> error + OptionArg" where
  "OptionArg_set field is_option v =
     (case v of
        None \<Rightarrow> Inl (ValidationError field)
      | Some name \<Rightarrow>
          if is_option name then Inr (OptionArg (Some name)) else Inl (ValidationError field))"

text \<open>
  Modelled from the spec: the dispatch of \<^verbatim>\<open>monitor_on\<close> is in \<^verbatim>\<open>hyperargs\<close>. Section 4.2:
  after a successful edit every rule attached to the edited field runs once, in
  registration order. A rule that raises ends the propagation with what was assigned.
\<close>

fun run_monitors :: "('s \<Rightarrow> 's outcome) list \<Rightarrow> 's \<Rightarrow> 's outcome" where
  "run_monitors [] s = (None, s)"
| "run_monitors (m # ms) s =
     (case m s of
        (Some e, s') \<Rightarrow> (Some e, s')
      | (None, s') \<Rightarrow> run_monitors ms s')"

section \<open>dataloader\_config.py\<close>

record IndexConf =
  epoch :: IntArg
  part :: IntArg
  row :: IntArg

definition IndexConf_init :: IndexConf where
  "IndexConf_init =
     \<lparr>epoch = IntArg (Some 0) (Some 0), part = IntArg (Some 0) (Some 0),
      row = IntArg (Some 0) (Some 0)\<rparr>"

record Index =
  index_epoch :: "int option"
  index_part :: "int option"
  index_row :: "int option"

definition to_index :: "IndexConf \<Rightarrow> Index" where
  "to_index c =
     \<lparr>index_epoch = ival (epoch c), index_part = ival (part c), index_row = ival (row c)\<rparr>"

record DataLoaderConf =
  batch_size :: IntArg
  num_path :: IntArg
  path_list :: "StrArg list"
  path_weight :: "FloatArg list"
  scanner_type :: OptionArg
  seed :: IntArg
  shuffle :: BoolArg
  prefetch_factor :: IntArg
  ignore_error :: BoolArg
  qps :: FloatArg
  instruct_timeout :: FloatArg
  worker_timeout :: FloatArg
  num_workers :: IntArg
  num_ranks :: IntArg
  rank_idx :: IntArg
  worker_indexes :: "IndexConf list list"

definition path_prompt :: StrArg where
  "path_prompt = StrArg (Some ''Enther the path to the data file.'')"

definition weight_default :: FloatArg where
  "weight_default = FloatArg (Some 1) (Some 0) (Some 1) False"

text \<open>The class attributes of \<^verbatim>\<open>DataLoaderConf\<close>: a fresh instance.\<close>

definition DataLoaderConf_init :: DataLoaderConf where
  "DataLoaderConf_init =
     \<lparr>batch_size = IntArg (Some 128) (Some 1),
      num_path = IntArg (Some 1) (Some 1),
      path_list = [path_prompt],
      path_weight = [weight_default],
      scanner_type = OptionArg (Some ''C4Scanner''),
      seed = IntArg (Some 42) None,
      shuffle = BoolArg (Some True),
      prefetch_factor = IntArg (Some 2) (Some 0),
      ignore_error = BoolArg (Some True),
      qps = FloatArg None (Some (1 / 10)) None True,
      instruct_timeout = FloatArg None (Some (1 / 10)) None True,
      worker_timeout = FloatArg None (Some (1 / 10)) None True,
      num_workers = IntArg (Some 1) (Some 1),
      num_ranks = IntArg (Some 1) (Some 1),
      rank_idx = IntArg (Some 0) (Some 0),
      worker_indexes = [[IndexConf_init]]\<rparr>"

text \<open>
  \<^verbatim>\<open>set_path_weight\<close>, the rule monitoring \<^verbatim>\<open>num_path\<close>. \<^verbatim>\<open>range(k)\<close> is empty for
  \<open>k \<le> 0\<close>, which \<open>nat k\<close> gives.
\<close>

definition set_path_weight :: "DataLoaderConf \<Rightarrow> DataLoaderConf outcome" where
  "set_path_weight c =
     (case ival (num_path c) of
        None \<Rightarrow> (Some (AssertionError []), c)
      | Some num \<Rightarrow>
          (let c1 =
                 (if int (length (path_weight c)) > num
                  then c\<lparr>path_weight := py_slice_to (path_weight c) num\<rparr>
                  else if int (length (path_weight c)) < num
                  then c\<lparr>path_weight := path_weight c @
                          replicate (nat (num - int (length (path_weight c)))) weight_default\<rparr>
                  else c);
               c2 =
                 (if int (length (path_list c1)) > num
                  then c1\<lparr>path_list := py_slice_to (path_list c1) num\<rparr>
                  else if int (length (path_list c1)) < num
                  then c1\<lparr>path_list := path_list c1 @
                          replicate (nat (num - int (length (path_list c1)))) path_prompt\<rparr>
                  else c1)
           in (None, c2)))"

text \<open>
  \<^verbatim>\<open>set_worker_indexes\<close>, the rule monitoring \<^verbatim>\<open>num_workers\<close> and \<^verbatim>\<open>num_path\<close>. The outer
  list is assigned to the attribute. In the loop over the inner lists, the branch for a
  list that is too long assigns the slice to the loop variable \<^verbatim>\<open>worker_indexes\<close>, a
  local name: the list inside \<^verbatim>\<open>self.worker_indexes\<close> is not touched. The branch for a
  list that is too short uses \<^verbatim>\<open>+=\<close>, which extends the list object in place.
\<close>

definition resize_inner :: "int \<Rightarrow> IndexConf list \<Rightarrow> IndexConf list" where
  "resize_inner num_worker_per_path ws =
     (if int (length ws) > num_worker_per_path then ws
      else if int (length ws) < num_worker_per_path
      then ws @ replicate (nat (num_worker_per_path - int (length ws))) IndexConf_init
      else ws)"

definition set_worker_indexes :: "DataLoaderConf \<Rightarrow> DataLoaderConf outcome" where
  "set_worker_indexes c =
     (case ival (num_path c) of
        None \<Rightarrow> (Some (AssertionError []), c)
      | Some n_path \<Rightarrow>
          (case ival (num_workers c) of
             None \<Rightarrow> (Some (AssertionError []), c)
           | Some num_worker_per_path \<Rightarrow>
               (let outer =
                      (if int (length (worker_indexes c)) > n_path
                       then py_slice_to (worker_indexes c) n_path
                       else if int (length (worker_indexes c)) < n_path
                       then worker_indexes c @
                              replicate (nat (n_path - int (length (worker_indexes c))))
                                [IndexConf_init]
                       else worker_indexes c)
                in (None, c\<lparr>worker_indexes := map (resize_inner num_worker_per_path) outer\<rparr>))))"

text \<open>
  Modelled from the spec: the entry point of an edit is in \<^verbatim>\<open>hyperargs\<close>. The new value
  is validated against the declaration of the field in the class; an accepted value is
  stored, and the methods the class attaches to the field with \<^verbatim>\<open>monitor_on\<close> run, in
  the order of their definition.
\<close>

definition edit_num_path :: "DataLoaderConf \<Rightarrow> int option \<Rightarrow> DataLoaderConf outcome" where
  "edit_num_path c v =
     (case IntArg_set ''num_path'' (num_path c) v of
        Inl e \<Rightarrow> (Some e, c)
      | Inr a \<Rightarrow> run_monitors [set_path_weight, set_worker_indexes] (c\<lparr>num_path := a\<rparr>))"

definition edit_num_workers :: "DataLoaderConf \<Rightarrow> int option \<Rightarrow> DataLoaderConf outcome" where
  "edit_num_workers c v =
     (case IntArg_set ''num_workers'' (num_workers c) v of
        Inl e \<Rightarrow> (Some e, c)
      | Inr a \<Rightarrow> run_monitors [set_worker_indexes] (c\<lparr>num_workers := a\<rparr>))"


text \<open>
  The edits of a \<^verbatim>\<open>DataLoaderConf\<close>, one per field and per list entry. Only \<^verbatim>\<open>num_path\<close>
  and \<^verbatim>\<open>num_workers\<close> have rules attached. Reaching for a list entry at an index outside
  the list raises \<^verbatim>\<open>IndexError\<close>.
\<close>

datatype edit =
    SetBatchSize "int option"
  | SetNumPath "int option"
  | SetPath nat "string option"
  | SetWeight nat "real option"
  | SetScannerType "string option"
  | SetSeed "int option"
  | SetShuffle "bool option"
  | SetPrefetchFactor "int option"
  | SetIgnoreError "bool option"
  | SetQps "real option"
  | SetInstructTimeout "real option"
  | SetWorkerTimeout "real option"
  | SetNumWorkers "int option"
  | SetNumRanks "int option"
  | SetRankIdx "int option"
  | SetEpoch nat nat "int option"
  | SetPart nat nat "int option"
  | SetRow nat nat "int option"

text \<open>
  Modelled from the spec: assigning to a \<^verbatim>\<open>StrArg\<close>, absent from the sources. Any
  string is accepted.
\<close>

definition StrArg_set :: "string \<Rightarrow> string option \<Rightarrow> error + StrArg" where
  "StrArg_set field v =
     (case v of None \<Rightarrow> Inl (ValidationError field) | Some s \<Rightarrow> Inr (StrArg (Some s)))"

text \<open>
  Modelled from the spec: assigning to a \<^verbatim>\<open>BoolArg\<close>, absent from the sources.
\<close>

definition BoolArg_set :: "string \<Rightarrow> bool option \<Rightarrow> error + BoolArg" where
  "BoolArg_set field v =
     (case v of None \<Rightarrow> Inl (ValidationError field) | Some b \<Rightarrow> Inr (BoolArg (Some b)))"

text \<open>Replacing the entry \<open>j\<close> of the inner list \<open>i\<close> of a list of lists.\<close>

definition update_at :: "'a list list \<Rightarrow> nat \<Rightarrow> nat \<Rightarrow> 'a \<Rightarrow> 'a list list" where
  "update_at xss i j x = xss[i := (xss ! i)[j := x]]"

definition in_range :: "'a list list \<Rightarrow> nat \<Rightarrow> nat \<Rightarrow> bool" where
  "in_range xss i j = (i < length xss \<and> j < length (xss ! i))"

definition assign :: "'s \<Rightarrow> error + 'a \<Rightarrow> ('a \<Rightarrow> 's) \<Rightarrow> 's outcome" where
  "assign c r upd = (case r of Inl e \<Rightarrow> (Some e, c) | Inr a \<Rightarrow> (None, upd a))"

fun apply_edit :: "DataLoaderConf \<Rightarrow> edit \<Rightarrow> DataLoaderConf outcome" where
  "apply_edit c (SetBatchSize v) =
     assign c (IntArg_set ''batch_size'' (batch_size c) v) (\<lambda>a. c\<lparr>batch_size := a\<rparr>)"
| "apply_edit c (SetNumPath v) = edit_num_path c v"
| "apply_edit c (SetPath i v) =
     (if i < length (path_list c)
      then assign c (StrArg_set ''path_list'' v) (\<lambda>a. c\<lparr>path_list := (path_list c)[i := a]\<rparr>)
      else (Some IndexError, c))"
| "apply_edit c (SetWeight i v) =
     (if i < length (path_weight c)
      then assign c (FloatArg_set ''path_weight'' (path_weight c ! i) v)
             (\<lambda>a. c\<lparr>path_weight := (path_weight c)[i := a]\<rparr>)
      else (Some IndexError, c))"
| "apply_edit c (SetScannerType v) =
     assign c (OptionArg_set ''scanner_type'' (\<lambda>name. name = ''C4Scanner'') v)
       (\<lambda>a. c\<lparr>scanner_type := a\<rparr>)"
| "apply_edit c (SetSeed v) =
     assign c (IntArg_set ''seed'' (seed c) v) (\<lambda>a. c\<lparr>seed := a\<rparr>)"
| "apply_edit c (SetShuffle v) =
     assign c (BoolArg_set ''shuffle'' v) (\<lambda>a. c\<lparr>shuffle := a\<rparr>)"
| "apply_edit c (SetPrefetchFactor v) =
     assign c (IntArg_set ''prefetch_factor'' (prefetch_factor c) v)
       (\<lambda>a. c\<lparr>prefetch_factor := a\<rparr>)"
| "apply_edit c (SetIgnoreError v) =
     assign c (BoolArg_set ''ignore_error'' v) (\<lambda>a. c\<lparr>ignore_error := a\<rparr>)"
| "apply_edit c (SetQps v) =
     assign c (FloatArg_set ''qps'' (qps c) v) (\<lambda>a. c\<lparr>qps := a\<rparr>)"
| "apply_edit c (SetInstructTimeout v) =
     assign c (FloatArg_set ''instruct_timeout'' (instruct_timeout c) v)
       (\<lambda>a. c\<lparr>instruct_timeout := a\<rparr>)"
| "apply_edit c (SetWorkerTimeout v) =
     assign c (FloatArg_set ''worker_timeout'' (worker_timeout c) v)
       (\<lambda>a. c\<lparr>worker_timeout := a\<rparr>)"
| "apply_edit c (SetNumWorkers v) = edit_num_workers c v"
| "apply_edit c (SetNumRanks v) =
     assign c (IntArg_set ''num_ranks'' (num_ranks c) v) (\<lambda>a. c\<lparr>num_ranks := a\<rparr>)"
| "apply_edit c (SetRankIdx v) =
     assign c (IntArg_set ''rank_idx'' (rank_idx c) v) (\<lambda>a. c\<lparr>rank_idx := a\<rparr>)"
| "apply_edit c (SetEpoch i j v) =
     (if in_range (worker_indexes c) i j
      then assign c (IntArg_set ''epoch'' (epoch (worker_indexes c ! i ! j)) v)
             (\<lambda>a. c\<lparr>worker_indexes :=
                     update_at (worker_indexes c) i j ((worker_indexes c ! i ! j)\<lparr>epoch := a\<rparr>)\<rparr>)
      else (Some IndexError, c))"
| "apply_edit c (SetPart i j v) =
     (if in_range (worker_indexes c) i j
      then assign c (IntArg_set ''part'' (part (worker_indexes c ! i ! j)) v)
             (\<lambda>a. c\<lparr>worker_indexes :=
                     update_at (worker_indexes c) i j ((worker_indexes c ! i ! j)\<lparr>part := a\<rparr>)\<rparr>)
      else (Some IndexError, c))"
| "apply_edit c (SetRow i j v) =
     (if in_range (worker_indexes c) i j
      then assign c (IntArg_set ''row'' (row (worker_indexes c ! i ! j)) v)
             (\<lambda>a. c\<lparr>worker_indexes :=
                     update_at (worker_indexes c) i j ((worker_indexes c ! i ! j)\<lparr>row := a\<rparr>)\<rparr>)
      else (Some IndexError, c))"

text \<open>A session of edits: a rejected edit is reported and the session goes on.\<close>

fun apply_edits :: "DataLoaderConf \<Rightarrow> edit list \<Rightarrow> DataLoaderConf" where
  "apply_edits c [] = c"
| "apply_edits c (e # es) = apply_edits (snd (apply_edit c e)) es"

subsection \<open>The call of the DataLoader constructor\<close>

text \<open>
  \<^verbatim>\<open>DataLoader\<close> and \<^verbatim>\<open>Scanner\<close> belong to the package \<^verbatim>\<open>lmfuser_data\<close>. A data loader
  is the record of the keyword arguments its constructor was called with; a keyword the
  call does not give is \<open>Omitted\<close>. A function object is an opaque handle. The lookup
  \<^verbatim>\<open>Scanner.get_subclass\<close> is a parameter: \<open>None\<close> when it raises.
\<close>

datatype callable = Callable nat

datatype scanner_cls = ScannerCls string

datatype 'a kwarg = Omitted | Passed 'a

record DataLoader =
  dl_batch_size :: int
  dl_path_list :: "string option list"
  dl_scanner_type :: scanner_cls
  dl_seed :: "int option"
  dl_shuffle :: "bool option"
  dl_pre_fetch_factor :: "int option"
  dl_indexes :: "Index list list kwarg"
  dl_infinite :: "bool kwarg"
  dl_map_fn :: "callable option"
  dl_flow_fn :: "callable option"
  dl_ignore_error :: "bool option"
  dl_qps :: "real option"
  dl_instruct_timeout :: "real option"
  dl_worker_timeout :: "real option"
  dl_restart_cnt :: "int option kwarg"
  dl_num_workers :: "int option"
  dl_num_ranks :: "int option"
  dl_rank_idx :: "int option"
  dl_batch_map_fn :: "callable option"
  dl_distributor_weights :: "real option list"

definition init_dataloader ::
  "(string \<Rightarrow> scanner_cls option) \<Rightarrow> DataLoaderConf \<Rightarrow>
   callable option \<Rightarrow> callable option \<Rightarrow> callable option \<Rightarrow> error + DataLoader" where
  "init_dataloader get_subclass c row_map_fn row_flow_fn batch_map_fn =
     (case ival (batch_size c) of
        None \<Rightarrow> Inl (AssertionError [])
      | Some bs \<Rightarrow>
          (case get_subclass (py_str (oval (scanner_type c))) of
             None \<Rightarrow> Inl (ScannerLookupError (py_str (oval (scanner_type c))))
           | Some sc \<Rightarrow>
               Inr \<lparr>dl_batch_size = bs,
                    dl_path_list = map (\<lambda>path. Some (py_str (sval path))) (path_list c),
                    dl_scanner_type = sc,
                    dl_seed = ival (seed c),
                    dl_shuffle = bval (shuffle c),
                    dl_pre_fetch_factor = ival (prefetch_factor c),
                    dl_indexes = Passed (map (map to_index) (worker_indexes c)),
                    dl_infinite = Passed False,
                    dl_map_fn = row_map_fn,
                    dl_flow_fn = row_flow_fn,
                    dl_ignore_error = bval (ignore_error c),
                    dl_qps = fval (qps c),
                    dl_instruct_timeout = fval (instruct_timeout c),
                    dl_worker_timeout = fval (worker_timeout c),
                    dl_restart_cnt = Passed None,
                    dl_num_workers = ival (num_workers c),
                    dl_num_ranks = ival (num_ranks c),
                    dl_rank_idx = ival (rank_idx c),
                    dl_batch_map_fn = batch_map_fn,
                    dl_distributor_weights = map fval (path_weight c)\<rparr>))"

section \<open>task.py\<close>

text \<open>
  A task configuration: \<open>class_name\<close> is \<^verbatim>\<open>__class__.__name__\<close>, \<open>task_scanner_type\<close> the
  attribute \<^verbatim>\<open>scanner_type\<close>, \<open>train_dataloader\<close> and \<open>eval_dataloader\<close> the attributes
  \<^verbatim>\<open>_train_dataloader\<close> and \<^verbatim>\<open>_eval_dataloader\<close>.
\<close>

record TaskBase =
  class_name :: string
  num_train_data_path :: IntArg
  train_data_path_list :: "StrArg list"
  train_data_weights :: "FloatArg list"
  num_eval_data_path :: IntArg
  eval_data_path_list :: "StrArg list"
  eval_data_weights :: "FloatArg list"
  task_scanner_type :: OptionArg
  train_dataloader :: "DataLoader option"
  eval_dataloader :: "DataLoader option"

definition Task_init :: TaskBase where
  "Task_init =
     \<lparr>class_name = ''Task'',
      num_train_data_path = IntArg (Some 1) (Some 0),
      train_data_path_list = [path_prompt],
      train_data_weights = [weight_default],
      num_eval_data_path = IntArg (Some 1) (Some 0),
      eval_data_path_list = [path_prompt],
      eval_data_weights = [weight_default],
      task_scanner_type = OptionArg (Some ''C4Scanner''),
      train_dataloader = None,
      eval_dataloader = None\<rparr>"

text \<open>\<^verbatim>\<open>[x] * k\<close> is empty for \<open>k \<le> 0\<close>.\<close>

definition set_train_path_list :: "TaskBase \<Rightarrow> TaskBase outcome" where
  "set_train_path_list t =
     (case ival (num_train_data_path t) of
        None \<Rightarrow> (Some (AssertionError []), t)
      | Some num \<Rightarrow>
          if int (length (train_data_path_list t)) > num
          then (None, t\<lparr>train_data_path_list := py_slice_to (train_data_path_list t) num,
                         train_data_weights := py_slice_to (train_data_weights t) num\<rparr>)
          else if int (length (train_data_path_list t)) < num
          then (None, t\<lparr>train_data_path_list := train_data_path_list t @
                           replicate (nat (num - int (length (train_data_path_list t)))) path_prompt,
                         train_data_weights := train_data_weights t @
                           replicate (nat (num - int (length (train_data_weights t)))) weight_default\<rparr>)
          else (None, t))"

text \<open>
  \<^verbatim>\<open>set_eval_path_list\<close> computes the number of appended elements from the lengths of
  the two train lists, as the source does.
\<close>

definition set_eval_path_list :: "TaskBase \<Rightarrow> TaskBase outcome" where
  "set_eval_path_list t =
     (case ival (num_eval_data_path t) of
        None \<Rightarrow> (Some (AssertionError []), t)
      | Some num \<Rightarrow>
          if int (length (eval_data_path_list t)) > num
          then (None, t\<lparr>eval_data_path_list := py_slice_to (eval_data_path_list t) num,
                         eval_data_weights := py_slice_to (eval_data_weights t) num\<rparr>)
          else if int (length (eval_data_path_list t)) < num
          then (None, t\<lparr>eval_data_path_list := eval_data_path_list t @
                           replicate (nat (num - int (length (train_data_path_list t)))) path_prompt,
                         eval_data_weights := eval_data_weights t @
                           replicate (nat (num - int (length (train_data_weights t)))) weight_default\<rparr>)
          else (None, t))"

definition edit_num_train_data_path :: "TaskBase \<Rightarrow> int option \<Rightarrow> TaskBase outcome" where
  "edit_num_train_data_path t v =
     (case IntArg_set ''num_train_data_path'' (num_train_data_path t) v of
        Inl e \<Rightarrow> (Some e, t)
      | Inr a \<Rightarrow> run_monitors [set_train_path_list] (t\<lparr>num_train_data_path := a\<rparr>))"

definition edit_num_eval_data_path :: "TaskBase \<Rightarrow> int option \<Rightarrow> TaskBase outcome" where
  "edit_num_eval_data_path t v =
     (case IntArg_set ''num_eval_data_path'' (num_eval_data_path t) v of
        Inl e \<Rightarrow> (Some e, t)
      | Inr a \<Rightarrow> run_monitors [set_eval_path_list] (t\<lparr>num_eval_data_path := a\<rparr>))"

text \<open>The eleven parameters of \<^verbatim>\<open>_get_train_dataloader\<close> and \<^verbatim>\<open>_get_eval_dataloader\<close>.\<close>

record loader_args =
  arg_batch_size :: int
  arg_seed :: int
  arg_shuffle :: bool
  arg_prefetch_factor :: int
  arg_ignore_error :: bool
  arg_qps :: "real option"
  arg_instruct_timeout :: real
  arg_worker_timeout :: real
  arg_num_workers :: int
  arg_rank :: int
  arg_world_size :: int

definition get_row_processor :: "TaskBase \<Rightarrow> callable option" where
  "get_row_processor t = None"

definition get_flow_processor :: "TaskBase \<Rightarrow> callable option" where
  "get_flow_processor t = None"

definition get_batch_processor :: "TaskBase \<Rightarrow> callable option" where
  "get_batch_processor t = None"

text \<open>The constructor call both methods make, on the lists each of them reads.\<close>

definition task_dataloader ::
  "TaskBase \<Rightarrow> loader_args \<Rightarrow> StrArg list \<Rightarrow> FloatArg list \<Rightarrow> scanner_cls \<Rightarrow> DataLoader" where
  "task_dataloader t a paths weights sc =
     \<lparr>dl_batch_size = arg_batch_size a,
      dl_path_list = map sval paths,
      dl_scanner_type = sc,
      dl_seed = Some (arg_seed a),
      dl_shuffle = Some (arg_shuffle a),
      dl_pre_fetch_factor = Some (arg_prefetch_factor a),
      dl_indexes = Omitted,
      dl_infinite = Omitted,
      dl_map_fn = get_row_processor t,
      dl_flow_fn = get_flow_processor t,
      dl_ignore_error = Some (arg_ignore_error a),
      dl_qps = arg_qps a,
      dl_instruct_timeout = Some (arg_instruct_timeout a),
      dl_worker_timeout = Some (arg_worker_timeout a),
      dl_restart_cnt = Omitted,
      dl_num_workers = Some (arg_num_workers a),
      dl_num_ranks = Some (arg_world_size a),
      dl_rank_idx = Some (arg_rank a),
      dl_batch_map_fn = get_batch_processor t,
      dl_distributor_weights = map fval weights\<rparr>"

definition get_train_dataloader ::
  "(string \<Rightarrow> scanner_cls option) \<Rightarrow> loader_args \<Rightarrow> TaskBase \<Rightarrow>
   (error + DataLoader option) \<times> TaskBase" where
  "get_train_dataloader get_subclass a t =
     (if ival (num_train_data_path t) = Some 0 then (Inr None, t)
      else
        (case train_dataloader t of
           Some dl \<Rightarrow> (Inr (Some dl), t)
         | None \<Rightarrow>
             (case oval (task_scanner_type t) of
                None \<Rightarrow> (Inl (AssertionError ''scanner_type is None''), t)
              | Some st \<Rightarrow>
                  (case get_subclass st of
                     None \<Rightarrow> (Inl (ScannerLookupError st), t)
                   | Some sc \<Rightarrow>
                       (let dl = task_dataloader t a (train_data_path_list t)
                                   (train_data_weights t) sc
                        in (Inr (Some dl), t\<lparr>train_dataloader := Some dl\<rparr>))))))"




subsection \<open>TaskSelector\<close>

text \<open>
  The registry \<^verbatim>\<open>TaskBase.all_subclass_map()\<close> of \<^verbatim>\<open>SubclassTracer\<close> is a parameter: it
  maps a class name to the instance its constructor returns; \<^verbatim>\<open>task_list()\<close> is the list
  of its names.
\<close>

record TaskSelector =
  task_name :: OptionArg
  conf :: TaskBase

definition TaskSelector_init :: TaskSelector where
  "TaskSelector_init = \<lparr>task_name = OptionArg (Some ''Task''), conf = Task_init\<rparr>"

definition change_conf :: "(string \<Rightarrow> TaskBase option) \<Rightarrow> TaskSelector \<Rightarrow> TaskSelector outcome" where
  "change_conf all_subclass_map s =
     (case oval (task_name s) of
        None \<Rightarrow> (None, s\<lparr>conf := Task_init\<rparr>)
      | Some name \<Rightarrow>
          if name \<noteq> class_name (conf s)
          then (case all_subclass_map name of
                  None \<Rightarrow> (Some (KeyError name), s)
                | Some fresh \<Rightarrow> (None, s\<lparr>conf := fresh\<rparr>))
          else (None, s))"

definition edit_task_name ::
  "(string \<Rightarrow> TaskBase option) \<Rightarrow> TaskSelector \<Rightarrow> string option \<Rightarrow> TaskSelector outcome" where
  "edit_task_name all_subclass_map s v =
     (case OptionArg_set ''task_name'' (\<lambda>name. all_subclass_map name \<noteq> None) v of
        Inl e \<Rightarrow> (Some e, s)
      | Inr a \<Rightarrow> run_monitors [change_conf all_subclass_map] (s\<lparr>task_name := a\<rparr>))"

subsection \<open>Tasks\<close>

text \<open>
  The class declares \<^verbatim>\<open>num_tasks\<close>, \<^verbatim>\<open>tasks\<close> and \<^verbatim>\<open>task_weights\<close>. \<^verbatim>\<open>change_task_list\<close>
  reads \<^verbatim>\<open>self.task_weight\<close>, an attribute the class does not have: the read raises
  \<^verbatim>\<open>AttributeError\<close>, after the assignment to \<^verbatim>\<open>self.tasks\<close> on the line before.
\<close>

record Tasks =
  num_tasks :: IntArg
  tasks :: "TaskSelector list"
  task_weights :: "FloatArg list"

definition Tasks_init :: Tasks where
  "Tasks_init =
     \<lparr>num_tasks = IntArg (Some 1) (Some 1), tasks = [TaskSelector_init],
      task_weights = [weight_default]\<rparr>"

definition change_task_list :: "Tasks \<Rightarrow> Tasks outcome" where
  "change_task_list t =
     (case ival (num_tasks t) of
        None \<Rightarrow> (Some (AssertionError ''num_tasks is None''), t)
      | Some num \<Rightarrow>
          if int (length (tasks t)) > num
          then (Some (AttributeError ''task_weight''), t\<lparr>tasks := py_slice_to (tasks t) num\<rparr>)
          else if int (length (tasks t)) < num
          then (Some (AttributeError ''task_weight''),
                t\<lparr>tasks := tasks t @
                     replicate (nat (num - int (length (tasks t)))) TaskSelector_init\<rparr>)
          else (None, t))"

definition edit_num_tasks :: "Tasks \<Rightarrow> int option \<Rightarrow> Tasks outcome" where
  "edit_num_tasks t v =
     (case IntArg_set ''num_tasks'' (num_tasks t) v of
        Inl e \<Rightarrow> (Some e, t)
      | Inr a \<Rightarrow> run_monitors [change_task_list] (t\<lparr>num_tasks := a\<rparr>))"

section \<open>Invariants and example inputs\<close>

text \<open>
  The declared lower bound of an integer argument is in place and its value respects it.
\<close>

definition int_ok :: "IntArg \<Rightarrow> int \<Rightarrow> bool" where
  "int_ok a lo = (imin a = Some lo \<and> (case ival a of None \<Rightarrow> False | Some n \<Rightarrow> lo \<le> n))"

definition conf_inv :: "DataLoaderConf \<Rightarrow> bool" where
  "conf_inv c =
     (int_ok (num_path c) 1 \<and> int_ok (num_workers c) 1 \<and> int_ok (num_ranks c) 1 \<and>
      int_ok (rank_idx c) 0)"

definition lists_paired :: "TaskBase \<Rightarrow> bool" where
  "lists_paired t =
     (length (train_data_path_list t) = length (train_data_weights t) \<and>
      length (eval_data_path_list t) = length (eval_data_weights t))"

text \<open>
  Example registries: a scanner registry that knows every name, and a task registry that
  holds the one task class \<^verbatim>\<open>task.py\<close> defines.
\<close>

definition all_scanners :: "string \<Rightarrow> scanner_cls option" where
  "all_scanners name = Some (ScannerCls name)"

definition only_Task :: "string \<Rightarrow> TaskBase option" where
  "only_Task name = (if name = ''Task'' then Some Task_init else None)"

definition args_a :: loader_args where
  "args_a =
     \<lparr>arg_batch_size = 8, arg_seed = 1, arg_shuffle = True, arg_prefetch_factor = 2,
      arg_ignore_error = True, arg_qps = None, arg_instruct_timeout = 5,
      arg_worker_timeout = 5, arg_num_workers = 1, arg_rank = 0, arg_world_size = 1\<rparr>"


section \<open>Properties of the rules\<close>

lemmas dl_defs = edit_num_path_def edit_num_workers_def IntArg_set_def set_path_weight_def
  set_worker_indexes_def resize_inner_def py_slice_to_def DataLoaderConf_init_def

lemma run_monitors_two:
  "run_monitors [f, g] s = (if fst (f s) = None then g (snd (f s)) else f s)"
  by (cases "f s") (auto split: option.splits prod.splits)

lemma run_monitors_one: "run_monitors [f] s = f s"
  by (cases "f s") (auto split: option.splits)

lemma assign_snd: "snd (assign c r upd) = (case r of Inl e \<Rightarrow> c | Inr a \<Rightarrow> upd a)"
  by (simp add: assign_def split: sum.splits)

subsection \<open>What each rule leaves alone\<close>

lemma set_path_weight_fields:
  "num_path (snd (set_path_weight c)) = num_path c"
  "num_workers (snd (set_path_weight c)) = num_workers c"
  "num_ranks (snd (set_path_weight c)) = num_ranks c"
  "rank_idx (snd (set_path_weight c)) = rank_idx c"
  "worker_indexes (snd (set_path_weight c)) = worker_indexes c"
  by (simp_all add: set_path_weight_def Let_def split: option.splits)

lemma set_worker_indexes_fields:
  "num_path (snd (set_worker_indexes c)) = num_path c"
  "num_workers (snd (set_worker_indexes c)) = num_workers c"
  "num_ranks (snd (set_worker_indexes c)) = num_ranks c"
  "rank_idx (snd (set_worker_indexes c)) = rank_idx c"
  "path_list (snd (set_worker_indexes c)) = path_list c"
  "path_weight (snd (set_worker_indexes c)) = path_weight c"
  by (simp_all add: set_worker_indexes_def Let_def split: option.splits)

lemma set_path_weight_ok: "ival (num_path c) \<noteq> None \<Longrightarrow> fst (set_path_weight c) = None"
  by (auto simp: set_path_weight_def Let_def split: option.splits)

lemma set_worker_indexes_ok:
  "ival (num_path c) \<noteq> None \<Longrightarrow> ival (num_workers c) \<noteq> None \<Longrightarrow>
   fst (set_worker_indexes c) = None"
  by (auto simp: set_worker_indexes_def Let_def split: option.splits)

subsection \<open>The declared bounds survive every edit\<close>

lemma conf_inv_init: "conf_inv DataLoaderConf_init"
  by (simp add: conf_inv_def int_ok_def DataLoaderConf_init_def)

lemma edit_num_path_inv: "conf_inv c \<Longrightarrow> conf_inv (snd (edit_num_path c v))"
  by (auto simp del: run_monitors.simps
      simp: edit_num_path_def run_monitors_two set_path_weight_fields set_worker_indexes_fields
      conf_inv_def int_ok_def IntArg_set_def split: option.splits sum.splits if_splits)

lemma edit_num_workers_inv: "conf_inv c \<Longrightarrow> conf_inv (snd (edit_num_workers c v))"
  by (auto simp del: run_monitors.simps
      simp: edit_num_workers_def run_monitors_one set_worker_indexes_fields
      conf_inv_def int_ok_def IntArg_set_def split: option.splits sum.splits if_splits)

lemma apply_edit_inv: "conf_inv c \<Longrightarrow> conf_inv (snd (apply_edit c e))"
proof (cases e)
  case (SetNumPath v)
  then show "conf_inv c \<Longrightarrow> ?thesis" by (simp add: edit_num_path_inv)
next
  case (SetNumWorkers v)
  then show "conf_inv c \<Longrightarrow> ?thesis" by (simp add: edit_num_workers_inv)
next
  case (SetNumRanks v)
  then show "conf_inv c \<Longrightarrow> ?thesis"
    by (auto simp: assign_snd conf_inv_def int_ok_def IntArg_set_def
        split: option.splits sum.splits if_splits)
next
  case (SetRankIdx v)
  then show "conf_inv c \<Longrightarrow> ?thesis"
    by (auto simp: assign_snd conf_inv_def int_ok_def IntArg_set_def
        split: option.splits sum.splits if_splits)
qed (auto simp: assign_snd conf_inv_def split: sum.splits)

lemma apply_edits_inv: "conf_inv c \<Longrightarrow> conf_inv (apply_edits c es)"
  by (induction es arbitrary: c) (simp_all add: apply_edit_inv)

subsection \<open>set\_path\_weight on its own\<close>

lemma set_path_weight_lengths:
  "ival (num_path c) = Some n \<Longrightarrow> 0 \<le> n \<Longrightarrow>
   int (length (path_list (snd (set_path_weight c)))) = n \<and>
   int (length (path_weight (snd (set_path_weight c)))) = n"
  by (auto simp: set_path_weight_def Let_def py_slice_to_def)

lemma set_path_weight_resize:
  assumes "ival (num_path c) = Some n" and "0 \<le> n"
  shows "path_list (snd (set_path_weight c)) =
           (if n < int (length (path_list c)) then take (nat n) (path_list c)
            else path_list c @ replicate (nat n - length (path_list c)) path_prompt)"
    and "path_weight (snd (set_path_weight c)) =
           (if n < int (length (path_weight c)) then take (nat n) (path_weight c)
            else path_weight c @ replicate (nat n - length (path_weight c)) weight_default)"
  using assms by (auto simp: set_path_weight_def Let_def py_slice_to_def nat_diff_distrib')

lemma edit_num_path_lists:
  assumes "imin (num_path c) = Some 1" and "1 \<le> n"
  shows "path_list (snd (edit_num_path c (Some n))) =
           path_list (snd (set_path_weight (c\<lparr>num_path := IntArg (Some n) (Some 1)\<rparr>)))"
    and "path_weight (snd (edit_num_path c (Some n))) =
           path_weight (snd (set_path_weight (c\<lparr>num_path := IntArg (Some n) (Some 1)\<rparr>)))"
  using assms
  by (simp_all del: run_monitors.simps
      add: edit_num_path_def IntArg_set_def run_monitors_two set_worker_indexes_fields)

text \<open>
  Under an edit \<^verbatim>\<open>num_path = n\<close>, \<^verbatim>\<open>path_list\<close> and \<^verbatim>\<open>path_weight\<close> of a \<^verbatim>\<open>DataLoaderConf\<close>
  become their first \<open>n\<close> elements when they are longer, and are followed by defaults up
  to length \<open>n\<close> when they are shorter.
\<close>

lemma edit_num_path_resize:
  assumes "imin (num_path c) = Some 1" and "1 \<le> n"
  shows "(n < int (length (path_list c)) \<longrightarrow>
            path_list (snd (edit_num_path c (Some n))) = take (nat n) (path_list c)) \<and>
         (int (length (path_list c)) < n \<longrightarrow>
            path_list (snd (edit_num_path c (Some n))) =
              path_list c @ replicate (nat n - length (path_list c)) path_prompt) \<and>
         (n < int (length (path_weight c)) \<longrightarrow>
            path_weight (snd (edit_num_path c (Some n))) = take (nat n) (path_weight c)) \<and>
         (int (length (path_weight c)) < n \<longrightarrow>
            path_weight (snd (edit_num_path c (Some n))) =
              path_weight c @ replicate (nat n - length (path_weight c)) weight_default) \<and>
         sval path_prompt = Some ''Enther the path to the data file.'' \<and>
         fval weight_default = Some 1"
proof -
  let ?c1 = "c\<lparr>num_path := IntArg (Some n) (Some 1)\<rparr>"
  have np: "ival (num_path ?c1) = Some n"
    by simp
  have n0: "0 \<le> n"
    using assms(2) by simp
  show ?thesis
    by (simp add: edit_num_path_lists [OF assms] set_path_weight_resize [OF np n0]
        path_prompt_def weight_default_def)
qed

subsection \<open>The jagged list on a fresh instance\<close>

lemma cons_replicate_pred: "1 \<le> n \<Longrightarrow> x # replicate (nat (n - 1)) x = replicate (nat n) x"
  by (cases "nat n") (auto simp: nat_diff_distrib')

text \<open>
  Growing works: on a fresh instance, \<open>num_path = np\<close> then \<open>num_workers = nw\<close> gives
  \<open>np\<close> inner lists of \<open>nw\<close> default entries each.
\<close>

lemma fresh_jagged:
  assumes "1 \<le> np" and "1 \<le> nw"
  shows "worker_indexes
           (snd (edit_num_workers (snd (edit_num_path DataLoaderConf_init (Some np))) (Some nw)))
         = replicate (nat np) (replicate (nat nw) IndexConf_init)"
  using assms by (auto simp: dl_defs cons_replicate_pred)

subsection \<open>The paired lists of a task\<close>

text \<open>
  In \<^verbatim>\<open>TaskBase\<close> the path list and the weight list of a count stay of equal length
  under edits of both counts, although \<^verbatim>\<open>set_eval_path_list\<close> may miss the count itself.
\<close>

lemma lists_paired_init: "lists_paired Task_init"
  by (simp add: lists_paired_def Task_init_def)

lemma lists_paired_train:
  "lists_paired t \<Longrightarrow> lists_paired (snd (edit_num_train_data_path t v))"
  by (auto simp: lists_paired_def edit_num_train_data_path_def set_train_path_list_def
      py_slice_to_def IntArg_set_def split: option.splits sum.splits if_splits)

lemma lists_paired_eval:
  "lists_paired t \<Longrightarrow> lists_paired (snd (edit_num_eval_data_path t v))"
  by (auto simp: lists_paired_def edit_num_eval_data_path_def set_eval_path_list_def
      py_slice_to_def IntArg_set_def split: option.splits sum.splits if_splits)

lemma eval_count_missed:
  "length (eval_data_path_list (snd (edit_num_eval_data_path
      (snd (edit_num_train_data_path Task_init (Some 3))) (Some 2)))) = 1"
  by (simp add: edit_num_train_data_path_def edit_num_eval_data_path_def
      set_train_path_list_def set_eval_path_list_def py_slice_to_def IntArg_set_def Task_init_def)

subsection \<open>The selector run on an unregistered name\<close>

lemma change_conf_unregistered:
  "oval (task_name s) = Some name \<Longrightarrow> all_subclass_map name = None \<Longrightarrow>
   name \<noteq> class_name (conf s) \<Longrightarrow>
   change_conf all_subclass_map s = (Some (KeyError name), s)"
  by (simp add: change_conf_def)

subsection \<open>The cached loaders\<close>





section \<open>The claims\<close>

subsection \<open>C1: the jagged list of resume indexes\<close>

text \<open>
  C1. On a fresh \<^verbatim>\<open>DataLoaderConf\<close>, setting \<^verbatim>\<open>num_path = 3\<close> and \<^verbatim>\<open>num_workers = 2\<close>
  gives three inner lists of two default index entries each; the claim goes on to say
  that setting \<^verbatim>\<open>num_workers = 1\<close> afterwards cuts every inner list down to its first
  entry. The code accepts all three edits, and after the third one, with \<^verbatim>\<open>num_workers\<close>
  at 1, every inner list still has its two entries: the slice is assigned to the loop
  variable of \<^verbatim>\<open>set_worker_indexes\<close> and never reaches the list.
\<close>

theorem C1_lowering_num_workers_keeps_inner_lists:
  "fst (edit_num_path DataLoaderConf_init (Some 3)) = None \<and>
   fst (edit_num_workers (snd (edit_num_path DataLoaderConf_init (Some 3))) (Some 2)) = None \<and>
   worker_indexes
     (snd (edit_num_workers (snd (edit_num_path DataLoaderConf_init (Some 3))) (Some 2)))
     = replicate 3 [IndexConf_init, IndexConf_init] \<and>
   fst (edit_num_workers
          (snd (edit_num_workers (snd (edit_num_path DataLoaderConf_init (Some 3))) (Some 2)))
          (Some 1)) = None \<and>
   ival (num_workers
     (snd (edit_num_workers
            (snd (edit_num_workers (snd (edit_num_path DataLoaderConf_init (Some 3))) (Some 2)))
            (Some 1)))) = Some 1 \<and>
   worker_indexes
     (snd (edit_num_workers
            (snd (edit_num_workers (snd (edit_num_path DataLoaderConf_init (Some 3))) (Some 2)))
            (Some 1)))
     = replicate 3 [IndexConf_init, IndexConf_init]"
  by (simp add: dl_defs eval_nat_numeral)

subsection \<open>C2: lists governed by one count\<close>

text \<open>
  C2. After an edit of a count, the lists the count governs have equal length; for
  \<^verbatim>\<open>Tasks\<close>, \<^verbatim>\<open>len(tasks) == len(task_weights)\<close> after an edit of \<^verbatim>\<open>num_tasks\<close>. On a fresh
  \<^verbatim>\<open>Tasks\<close>, the edit \<^verbatim>\<open>num_tasks = 2\<close> extends \<^verbatim>\<open>tasks\<close> to two entries and then raises
  \<^verbatim>\<open>AttributeError\<close> on \<^verbatim>\<open>self.task_weight\<close>; \<^verbatim>\<open>task_weights\<close> keeps its one entry.
\<close>

theorem C2_num_tasks_edit_leaves_task_weights:
  "fst (edit_num_tasks Tasks_init (Some 2)) = Some (AttributeError ''task_weight'') \<and>
   length (tasks (snd (edit_num_tasks Tasks_init (Some 2)))) = 2 \<and>
   length (task_weights (snd (edit_num_tasks Tasks_init (Some 2)))) = 1"
  by (simp add: edit_num_tasks_def IntArg_set_def change_task_list_def Tasks_init_def)

subsection \<open>C3: the count of paths\<close>

text \<open>
  C3, as stated: every \<open>n \<ge> 0\<close> is accepted as \<^verbatim>\<open>num_path\<close>. The field is declared with
  \<^verbatim>\<open>min_value=1\<close>: on a fresh instance the edit \<^verbatim>\<open>num_path = 0\<close> is rejected and
  nothing changes.
\<close>

theorem C3_num_path_zero_rejected:
  "edit_num_path DataLoaderConf_init (Some 0) =
     (Some (ValidationError ''num_path''), DataLoaderConf_init)"
  by (simp add: edit_num_path_def IntArg_set_def DataLoaderConf_init_def)

text \<open>
  C3, amended: on every \<^verbatim>\<open>DataLoaderConf\<close> reached from a fresh one by field edits, and
  for every \<open>n \<ge> 1\<close>, the edit \<^verbatim>\<open>num_path = n\<close> succeeds, and afterwards \<^verbatim>\<open>path_list\<close>
  and \<^verbatim>\<open>path_weight\<close> both have length \<open>n\<close>.
\<close>

theorem C3_num_path_lengths:
  assumes "1 \<le> n"
  shows "fst (edit_num_path (apply_edits DataLoaderConf_init es) (Some n)) = None \<and>
         int (length (path_list
           (snd (edit_num_path (apply_edits DataLoaderConf_init es) (Some n))))) = n \<and>
         int (length (path_weight
           (snd (edit_num_path (apply_edits DataLoaderConf_init es) (Some n))))) = n"
proof -
  define c where "c = apply_edits DataLoaderConf_init es"
  define c1 where "c1 = c\<lparr>num_path := IntArg (Some n) (Some 1)\<rparr>"
  have inv: "conf_inv c"
    unfolding c_def by (rule apply_edits_inv [OF conf_inv_init])
  then have set: "IntArg_set ''num_path'' (num_path c) (Some n) = Inr (IntArg (Some n) (Some 1))"
    using assms by (simp add: conf_inv_def int_ok_def IntArg_set_def)
  have nw: "ival (num_workers c1) \<noteq> None"
    using inv by (auto simp: c1_def conf_inv_def int_ok_def split: option.splits)
  have np: "ival (num_path c1) = Some n"
    by (simp add: c1_def)
  have ok1: "fst (set_path_weight c1) = None"
    using np by (simp add: set_path_weight_ok)
  have ok2: "fst (set_worker_indexes (snd (set_path_weight c1))) = None"
    using np nw by (simp add: set_worker_indexes_ok set_path_weight_fields)
  have eq: "edit_num_path c (Some n) = set_worker_indexes (snd (set_path_weight c1))"
    using ok1
    by (simp del: run_monitors.simps add: edit_num_path_def set run_monitors_two c1_def)
  have len: "int (length (path_list (snd (set_path_weight c1)))) = n \<and>
             int (length (path_weight (snd (set_path_weight c1)))) = n"
    using np assms by (simp add: set_path_weight_lengths)
  show ?thesis
    unfolding c_def [symmetric] eq using ok2 len by (simp add: set_worker_indexes_fields)
qed

theorem C3_num_path_lengths_witness:
  "(1::int) \<le> 3 \<and>
   fst (edit_num_path (apply_edits DataLoaderConf_init [SetNumWorkers (Some 2)]) (Some 3)) = None \<and>
   int (length (path_list
     (snd (edit_num_path (apply_edits DataLoaderConf_init [SetNumWorkers (Some 2)]) (Some 3))))) = 3 \<and>
   int (length (path_weight
     (snd (edit_num_path (apply_edits DataLoaderConf_init [SetNumWorkers (Some 2)]) (Some 3))))) = 3"
  using C3_num_path_lengths [of 3 "[SetNumWorkers (Some 2)]"] by simp

subsection \<open>C4: what a resize keeps and what it appends\<close>

text \<open>
  C4. Every resize of a list by an edit of its count, from length \<open>m\<close> to count \<open>n\<close>:
  for \<open>n < m\<close> the list becomes its first \<open>n\<close> elements, for \<open>n > m\<close> it keeps its \<open>m\<close>
  elements and \<open>n - m\<close> defaults are appended. On a fresh task with
  \<^verbatim>\<open>num_train_data_path = 3\<close>, the accepted edit \<^verbatim>\<open>num_eval_data_path = 2\<close> finds the two
  eval lists at length 1 and leaves each at its one element: \<^verbatim>\<open>set_eval_path_list\<close>
  computes the number of appended elements from the train lists, 2 - 3. On a fresh
  \<^verbatim>\<open>DataLoaderConf\<close> with \<^verbatim>\<open>num_workers = 2\<close>, the accepted edit \<^verbatim>\<open>num_workers = 1\<close> leaves the
  inner list of \<^verbatim>\<open>worker_indexes\<close> at its two entries.
\<close>

theorem C4_eval_resize_appends_nothing:
  "fst (edit_num_train_data_path Task_init (Some 3)) = None \<and>
   length (eval_data_path_list (snd (edit_num_train_data_path Task_init (Some 3)))) = 1 \<and>
   length (eval_data_weights (snd (edit_num_train_data_path Task_init (Some 3)))) = 1 \<and>
   fst (edit_num_eval_data_path (snd (edit_num_train_data_path Task_init (Some 3))) (Some 2))
     = None \<and>
   ival (num_eval_data_path
     (snd (edit_num_eval_data_path (snd (edit_num_train_data_path Task_init (Some 3))) (Some 2))))
     = Some 2 \<and>
   eval_data_path_list
     (snd (edit_num_eval_data_path (snd (edit_num_train_data_path Task_init (Some 3))) (Some 2)))
     = [path_prompt] \<and>
   eval_data_weights
     (snd (edit_num_eval_data_path (snd (edit_num_train_data_path Task_init (Some 3))) (Some 2)))
     = [weight_default] \<and>
   fst (edit_num_workers DataLoaderConf_init (Some 2)) = None \<and>
   fst (edit_num_workers (snd (edit_num_workers DataLoaderConf_init (Some 2))) (Some 1)) = None \<and>
   ival (num_workers
     (snd (edit_num_workers (snd (edit_num_workers DataLoaderConf_init (Some 2))) (Some 1))))
     = Some 1 \<and>
   worker_indexes
     (snd (edit_num_workers (snd (edit_num_workers DataLoaderConf_init (Some 2))) (Some 1)))
     = [[IndexConf_init, IndexConf_init]]"
  by (simp add: edit_num_train_data_path_def edit_num_eval_data_path_def
      set_train_path_list_def set_eval_path_list_def Task_init_def dl_defs)

subsection \<open>C5: selecting the active task class again\<close>

text \<open>
  C5. When the child of a \<^verbatim>\<open>TaskSelector\<close> is an instance of the class called \<open>name\<close>,
  setting \<^verbatim>\<open>task_name\<close> to \<open>name\<close> leaves the child as it is, with every edited field:
  the edit keeps \<^verbatim>\<open>conf\<close>, and \<^verbatim>\<open>change_conf\<close>, run with that name selected, changes
  nothing at all.
\<close>

theorem C5_same_name_keeps_child:
  assumes "class_name (conf s) = name"
  shows "conf (snd (edit_task_name all_subclass_map s (Some name))) = conf s \<and>
         (oval (task_name s) = Some name \<longrightarrow> change_conf all_subclass_map s = (None, s))"
  using assms by (simp add: edit_task_name_def OptionArg_set_def change_conf_def)

theorem C5_same_name_keeps_child_witness:
  "class_name (conf (TaskSelector_init\<lparr>conf := snd (edit_num_train_data_path Task_init (Some 3))\<rparr>))
     = ''Task'' \<and>
   fst (edit_task_name only_Task
     (TaskSelector_init\<lparr>conf := snd (edit_num_train_data_path Task_init (Some 3))\<rparr>)
     (Some ''Task'')) = None \<and>
   length (train_data_path_list (conf (snd (edit_task_name only_Task
     (TaskSelector_init\<lparr>conf := snd (edit_num_train_data_path Task_init (Some 3))\<rparr>)
     (Some ''Task''))))) = 3"
proof -
  let ?t = "snd (edit_num_train_data_path Task_init (Some 3))"
  let ?s = "TaskSelector_init\<lparr>conf := ?t\<rparr>"
  have t: "class_name ?t = ''Task''" "length (train_data_path_list ?t) = 3"
    by (simp_all add: edit_num_train_data_path_def IntArg_set_def set_train_path_list_def
        Task_init_def)
  have h: "class_name (conf ?s) = ''Task''"
    by (simp add: t(1))
  have ok: "fst (edit_task_name only_Task ?s (Some ''Task'')) = None"
    by (simp add: edit_task_name_def OptionArg_set_def only_Task_def change_conf_def t(1))
  show ?thesis
    using C5_same_name_keeps_child [OF h, of only_Task] ok t by simp
qed

subsection \<open>C6: selecting an unregistered task class\<close>

text \<open>
  C6. Setting \<^verbatim>\<open>task_name\<close> to a name that is not in the registry of task classes fails
  with an error, and the selector, its child included, is exactly as before.
\<close>

theorem C6_unregistered_name_rejected:
  assumes "all_subclass_map name = None"
  shows "edit_task_name all_subclass_map s (Some name) =
           (Some (ValidationError ''task_name''), s)"
  using assms by (simp add: edit_task_name_def OptionArg_set_def)

theorem C6_unregistered_name_rejected_witness:
  "only_Task ''Nope'' = None \<and>
   edit_task_name only_Task TaskSelector_init (Some ''Nope'') =
     (Some (ValidationError ''task_name''), TaskSelector_init)"
proof -
  have h: "only_Task ''Nope'' = None"
    by (simp add: only_Task_def)
  show ?thesis
    using h C6_unregistered_name_rejected
      [where all_subclass_map = only_Task and name = "''Nope''" and s = TaskSelector_init]
    by simp
qed

subsection \<open>C7: assembling with unset fields\<close>

text \<open>
  C7, as stated: with a required field unset, assembly fails with one error that names
  every offending field, and builds nothing. On a fresh instance, whose path has never
  been set and is still the prompt of its declaration, \<^verbatim>\<open>init_dataloader\<close> builds the
  loader with the prompt as path. The method reckons with a value that is \<^verbatim>\<open>None\<close> (it
  asserts that \<^verbatim>\<open>batch_size\<close> is not): with \<^verbatim>\<open>seed\<close> at \<^verbatim>\<open>None\<close> it builds the loader and
  hands it \<^verbatim>\<open>None\<close> as seed; with \<^verbatim>\<open>batch_size\<close> and \<^verbatim>\<open>seed\<close> both at \<^verbatim>\<open>None\<close> it raises a
  bare \<^verbatim>\<open>AssertionError\<close> that names neither.
\<close>

theorem C7_unset_fields_not_reported:
  "(case init_dataloader all_scanners DataLoaderConf_init None None None of
      Inl e \<Rightarrow> False
    | Inr dl \<Rightarrow> dl_path_list dl = [Some ''Enther the path to the data file.'']) \<and>
   (case init_dataloader all_scanners (DataLoaderConf_init\<lparr>seed := IntArg None None\<rparr>)
           None None None of
      Inl e \<Rightarrow> False
    | Inr dl \<Rightarrow> dl_seed dl = None \<and> dl_batch_size dl = 128) \<and>
   init_dataloader all_scanners
     (DataLoaderConf_init\<lparr>batch_size := IntArg None (Some 1), seed := IntArg None None\<rparr>)
     None None None = Inl (AssertionError [])"
  by (simp add: init_dataloader_def DataLoaderConf_init_def all_scanners_def py_str_def
      path_prompt_def)

text \<open>
  C7, amended: assembly raises on the first check that fails, and there are two checks.
  \<^verbatim>\<open>init_dataloader\<close> fails in exactly two cases: \<^verbatim>\<open>batch_size\<close> is unset, with an
  \<^verbatim>\<open>AssertionError\<close> that has no message and names no field; or \<^verbatim>\<open>batch_size\<close> is set and
  the scanner registry does not resolve the name \<^verbatim>\<open>str(scanner_type)\<close>, which is \<^verbatim>\<open>'None'\<close>
  for an unset \<^verbatim>\<open>scanner_type\<close>. In every other case it builds the loader and hands the
  constructor the value of each of \<^verbatim>\<open>seed\<close>, \<^verbatim>\<open>shuffle\<close>, \<^verbatim>\<open>prefetch_factor\<close>,
  \<^verbatim>\<open>ignore_error\<close>, \<^verbatim>\<open>qps\<close>, \<^verbatim>\<open>instruct_timeout\<close>, \<^verbatim>\<open>worker_timeout\<close>, \<^verbatim>\<open>num_workers\<close>,
  \<^verbatim>\<open>num_ranks\<close>, \<^verbatim>\<open>rank_idx\<close>, of every weight and of every index component as it is, unset
  ones as \<^verbatim>\<open>None\<close>, and \<^verbatim>\<open>str()\<close> of every path, \<^verbatim>\<open>'None'\<close> for an unset one.
  \<^verbatim>\<open>_get_train_dataloader\<close> fails exactly when the count is not 0, no loader is cached,
  and \<^verbatim>\<open>scanner_type\<close> is unset (\<^verbatim>\<open>AssertionError\<close> with the message
  \<^verbatim>\<open>scanner_type is None\<close>) or names a scanner the registry does not resolve. A call that
  fails returns no loader, and leaves the task as it was.
\<close>

theorem C7_assembly_checks:
  "((init_dataloader get_subclass c row_map_fn row_flow_fn batch_map_fn = Inl e) =
      (ival (batch_size c) = None \<and> e = AssertionError [] \<or>
       ival (batch_size c) \<noteq> None \<and> get_subclass (py_str (oval (scanner_type c))) = None \<and>
         e = ScannerLookupError (py_str (oval (scanner_type c))))) \<and>
   py_str None = ''None'' \<and>
   (ival (batch_size c) = Some bs \<and> get_subclass (py_str (oval (scanner_type c))) = Some sc \<longrightarrow>
      (\<exists>dl. init_dataloader get_subclass c row_map_fn row_flow_fn batch_map_fn = Inr dl \<and>
         dl_batch_size dl = bs \<and>
         dl_scanner_type dl = sc \<and>
         dl_path_list dl = map (\<lambda>path. Some (py_str (sval path))) (path_list c) \<and>
         dl_distributor_weights dl = map fval (path_weight c) \<and>
         dl_seed dl = ival (seed c) \<and>
         dl_shuffle dl = bval (shuffle c) \<and>
         dl_pre_fetch_factor dl = ival (prefetch_factor c) \<and>
         dl_ignore_error dl = bval (ignore_error c) \<and>
         dl_qps dl = fval (qps c) \<and>
         dl_instruct_timeout dl = fval (instruct_timeout c) \<and>
         dl_worker_timeout dl = fval (worker_timeout c) \<and>
         dl_num_workers dl = ival (num_workers c) \<and>
         dl_num_ranks dl = ival (num_ranks c) \<and>
         dl_rank_idx dl = ival (rank_idx c) \<and>
         dl_indexes dl =
           Passed (map (map (\<lambda>i. \<lparr>index_epoch = ival (epoch i), index_part = ival (part i),
                                    index_row = ival (row i)\<rparr>)) (worker_indexes c)))) \<and>
   ((fst (get_train_dataloader get_subclass a t) = Inl e) =
      (ival (num_train_data_path t) \<noteq> Some 0 \<and> train_dataloader t = None \<and>
       (oval (task_scanner_type t) = None \<and> e = AssertionError ''scanner_type is None'' \<or>
        (\<exists>st. oval (task_scanner_type t) = Some st \<and> get_subclass st = None \<and>
              e = ScannerLookupError st)))) \<and>
   (fst (get_train_dataloader get_subclass a t) = Inl e \<longrightarrow>
      snd (get_train_dataloader get_subclass a t) = t)"
proof (intro conjI impI)
  show "(init_dataloader get_subclass c row_map_fn row_flow_fn batch_map_fn = Inl e) =
      (ival (batch_size c) = None \<and> e = AssertionError [] \<or>
       ival (batch_size c) \<noteq> None \<and> get_subclass (py_str (oval (scanner_type c))) = None \<and>
         e = ScannerLookupError (py_str (oval (scanner_type c))))"
    by (auto simp: init_dataloader_def split: option.splits)
  show "py_str None = ''None''"
    by (simp add: py_str_def)
  show "(fst (get_train_dataloader get_subclass a t) = Inl e) =
      (ival (num_train_data_path t) \<noteq> Some 0 \<and> train_dataloader t = None \<and>
       (oval (task_scanner_type t) = None \<and> e = AssertionError ''scanner_type is None'' \<or>
        (\<exists>st. oval (task_scanner_type t) = Some st \<and> get_subclass st = None \<and>
              e = ScannerLookupError st)))"
    by (auto simp: get_train_dataloader_def Let_def split: option.splits)
next
  assume "fst (get_train_dataloader get_subclass a t) = Inl e"
  then show "snd (get_train_dataloader get_subclass a t) = t"
    by (auto simp: get_train_dataloader_def Let_def split: option.splits if_splits)
next
  assume "ival (batch_size c) = Some bs \<and>
    get_subclass (py_str (oval (scanner_type c))) = Some sc"
  then show "\<exists>dl. init_dataloader get_subclass c row_map_fn row_flow_fn batch_map_fn = Inr dl \<and>
         dl_batch_size dl = bs \<and>
         dl_scanner_type dl = sc \<and>
         dl_path_list dl = map (\<lambda>path. Some (py_str (sval path))) (path_list c) \<and>
         dl_distributor_weights dl = map fval (path_weight c) \<and>
         dl_seed dl = ival (seed c) \<and>
         dl_shuffle dl = bval (shuffle c) \<and>
         dl_pre_fetch_factor dl = ival (prefetch_factor c) \<and>
         dl_ignore_error dl = bval (ignore_error c) \<and>
         dl_qps dl = fval (qps c) \<and>
         dl_instruct_timeout dl = fval (instruct_timeout c) \<and>
         dl_worker_timeout dl = fval (worker_timeout c) \<and>
         dl_num_workers dl = ival (num_workers c) \<and>
         dl_num_ranks dl = ival (num_ranks c) \<and>
         dl_rank_idx dl = ival (rank_idx c) \<and>
         dl_indexes dl =
           Passed (map (map (\<lambda>i. \<lparr>index_epoch = ival (epoch i), index_part = ival (part i),
                                    index_row = ival (row i)\<rparr>)) (worker_indexes c))"
    by (simp add: init_dataloader_def to_index_def [abs_def])
qed

theorem C7_assembly_checks_witness:
  "init_dataloader all_scanners (DataLoaderConf_init\<lparr>batch_size := IntArg None (Some 1)\<rparr>)
     None None None = Inl (AssertionError []) \<and>
   (\<exists>dl. init_dataloader all_scanners
            (DataLoaderConf_init\<lparr>path_list := [StrArg None], seed := IntArg None None\<rparr>)
            None None None = Inr dl \<and>
         dl_path_list dl = [Some ''None''] \<and> dl_seed dl = None \<and> dl_batch_size dl = 128) \<and>
   get_train_dataloader all_scanners args_a (Task_init\<lparr>task_scanner_type := OptionArg None\<rparr>) =
     (Inl (AssertionError ''scanner_type is None''),
      Task_init\<lparr>task_scanner_type := OptionArg None\<rparr>)"
proof -
  define c1 where "c1 = DataLoaderConf_init\<lparr>batch_size := IntArg None (Some 1)\<rparr>"
  define c2 where
    "c2 = DataLoaderConf_init\<lparr>path_list := [StrArg None], seed := IntArg None None\<rparr>"
  define t1 where "t1 = Task_init\<lparr>task_scanner_type := OptionArg None\<rparr>"
  have h1: "ival (batch_size c1) = None"
    by (simp add: c1_def)
  have h2: "ival (batch_size c2) = Some 128 \<and>
      all_scanners (py_str (oval (scanner_type c2))) = Some (ScannerCls ''C4Scanner'')"
    by (simp add: c2_def DataLoaderConf_init_def all_scanners_def py_str_def)
  have f2: "path_list c2 = [StrArg None]" "ival (seed c2) = None"
    by (simp_all add: c2_def)
  have h3: "ival (num_train_data_path t1) \<noteq> Some 0 \<and> train_dataloader t1 = None \<and>
      oval (task_scanner_type t1) = None"
    by (simp add: t1_def Task_init_def)
  have a: "init_dataloader all_scanners c1 None None None = Inl (AssertionError [])"
    using C7_assembly_checks
      [where get_subclass = all_scanners and c = c1 and row_map_fn = None
        and row_flow_fn = None and batch_map_fn = None and e = "AssertionError []"] h1
    by blast
  from C7_assembly_checks
      [where get_subclass = all_scanners and c = c2 and row_map_fn = None
        and row_flow_fn = None and batch_map_fn = None and bs = 128
        and sc = "ScannerCls ''C4Scanner''" and a = args_a and t = t1
        and e = "AssertionError []"] h2
  obtain dl where dl: "init_dataloader all_scanners c2 None None None = Inr dl"
      "dl_batch_size dl = 128"
      "dl_path_list dl = map (\<lambda>path. Some (py_str (sval path))) (path_list c2)"
      "dl_seed dl = ival (seed c2)"
    and str_none: "py_str None = ''None''"
    by blast
  have b: "\<exists>dl. init_dataloader all_scanners c2 None None None = Inr dl \<and>
         dl_path_list dl = [Some ''None''] \<and> dl_seed dl = None \<and> dl_batch_size dl = 128"
    using dl str_none by (simp add: f2)
  have d: "fst (get_train_dataloader all_scanners args_a t1) =
      Inl (AssertionError ''scanner_type is None'')"
    using C7_assembly_checks
      [where get_subclass = all_scanners and a = args_a and t = t1
        and e = "AssertionError ''scanner_type is None''"] h3
    by blast
  then have "snd (get_train_dataloader all_scanners args_a t1) = t1"
    using C7_assembly_checks
      [where get_subclass = all_scanners and a = args_a and t = t1
        and e = "AssertionError ''scanner_type is None''"]
    by blast
  with d have "get_train_dataloader all_scanners args_a t1 =
      (Inl (AssertionError ''scanner_type is None''), t1)"
    by (simp add: prod_eq_iff)
  with a b show ?thesis
    unfolding c1_def c2_def t1_def by simp
qed

subsection \<open>C8: the rank fields\<close>

text \<open>
  C8, as stated: no sequence of accepted edits reaches \<^verbatim>\<open>rank_idx >= num_ranks\<close>. On a
  fresh instance (\<^verbatim>\<open>num_ranks = 1\<close>) the edit \<^verbatim>\<open>rank_idx = 1\<close> is accepted: each field
  is validated against its own lower bound and nothing relates the two.
\<close>

theorem C8_rank_idx_not_bounded_by_num_ranks:
  "fst (apply_edit DataLoaderConf_init (SetRankIdx (Some 1))) = None \<and>
   ival (rank_idx (snd (apply_edit DataLoaderConf_init (SetRankIdx (Some 1))))) = Some 1 \<and>
   ival (num_ranks (snd (apply_edit DataLoaderConf_init (SetRankIdx (Some 1))))) = Some 1"
  by (simp add: assign_def IntArg_set_def DataLoaderConf_init_def)

text \<open>
  C8, amended: in every \<^verbatim>\<open>DataLoaderConf\<close> reached from a fresh one by field edits,
  \<^verbatim>\<open>num_workers\<close>, \<^verbatim>\<open>num_ranks\<close> and \<^verbatim>\<open>rank_idx\<close> are integers with \<^verbatim>\<open>num_workers >= 1\<close>,
  \<^verbatim>\<open>num_ranks >= 1\<close> and \<^verbatim>\<open>rank_idx >= 0\<close>.
\<close>

theorem C8_rank_fields_lower_bounds:
  "\<exists>w r i. ival (num_workers (apply_edits DataLoaderConf_init es)) = Some w \<and>
           ival (num_ranks (apply_edits DataLoaderConf_init es)) = Some r \<and>
           ival (rank_idx (apply_edits DataLoaderConf_init es)) = Some i \<and>
           1 \<le> w \<and> 1 \<le> r \<and> 0 \<le> i"
  using apply_edits_inv [OF conf_inv_init, of es]
  by (auto simp: conf_inv_def int_ok_def split: option.splits)

theorem C8_rank_fields_lower_bounds_witness:
  "\<exists>w r i.
     ival (num_workers (apply_edits DataLoaderConf_init
       [SetNumRanks (Some 0), SetNumRanks (Some 4), SetRankIdx (Some (- 1))])) = Some w \<and>
     ival (num_ranks (apply_edits DataLoaderConf_init
       [SetNumRanks (Some 0), SetNumRanks (Some 4), SetRankIdx (Some (- 1))])) = Some r \<and>
     ival (rank_idx (apply_edits DataLoaderConf_init
       [SetNumRanks (Some 0), SetNumRanks (Some 4), SetRankIdx (Some (- 1))])) = Some i \<and>
     1 \<le> w \<and> 1 \<le> r \<and> 0 \<le> i"
  using C8_rank_fields_lower_bounds
    [of "[SetNumRanks (Some 0), SetNumRanks (Some 4), SetRankIdx (Some (- 1))]"]
  by simp

subsection \<open>C9: assembly forwards the field values\<close>



subsection \<open>C10: the cached loaders of a task\<close>




end
